theory Spec2Isabelle
  imports Complex_Main "HOL-Library.AList"
begin

section \<open>Values, exceptions and dates\<close>

text \<open>
  The application (app.py) handles records decoded from a JSON body: dictionaries from field
  names to values. The values below are the Python objects that occur: what
  \<^verbatim>\<open>resp.json()\<close> can build, and \<^verbatim>\<open>datetime\<close>, which line 194 tests for.
  A dictionary is an association list in insertion order, read with \<^const>\<open>map_of\<close>.

  Strings are byte strings, and the digits and blanks recognised are the ASCII ones.
  A float is an exact rational or one of the three non-finite values: the rounding and
  the overflow of binary64 are not part of the model. The amounts of the fallback
  dataset and their sums are small integers, on which binary64 arithmetic is exact.
\<close>

datatype date = Date (year: nat) (month: nat) (day: nat)

datatype pyfloat = Finite rat | PosInf | NegInf | NaN

datatype pyval =
    VNone
  | VBool bool
  | VInt int
  | VFloat pyfloat
  | VStr string
  | VList "pyval list"
  | VDict "(string \<times> pyval) list"
  | VDatetime date

datatype exc =
    ValueError | TypeError | KeyError | AttributeError
  | RequestException | HTTPError | JSONDecodeError

type_synonym 'a result = "exc + 'a"

text \<open>Truth value of an object, as \<^verbatim>\<open>not x\<close>, \<^verbatim>\<open>x or y\<close> and \<^verbatim>\<open>if x\<close> test it.\<close>

fun truthy :: "pyval \<Rightarrow> bool" where
  "truthy VNone = False"
| "truthy (VBool b) = b"
| "truthy (VInt i) = (i \<noteq> 0)"
| "truthy (VFloat f) = (f \<noteq> Finite 0)"
| "truthy (VStr s) = (s \<noteq> [])"
| "truthy (VList xs) = (xs \<noteq> [])"
| "truthy (VDict d) = (d \<noteq> [])"
| "truthy (VDatetime _) = True"

subsection \<open>Dates: comparison, \<^verbatim>\<open>strptime\<close> and \<^verbatim>\<open>strftime\<close>\<close>

text \<open>\<^verbatim>\<open>date.__le__\<close> compares (year, month, day) lexicographically.\<close>

definition date_le :: "date \<Rightarrow> date \<Rightarrow> bool" where
  "date_le a b =
     (year a < year b \<or>
      (year a = year b \<and> (month a < month b \<or> (month a = month b \<and> day a \<le> day b))))"

definition date_gt :: "date \<Rightarrow> date \<Rightarrow> bool" where
  "date_gt a b = (\<not> date_le a b)"

definition is_digit :: "char \<Rightarrow> bool" where
  "is_digit c = (c \<in> set ''0123456789'')"

definition digit_val :: "char \<Rightarrow> nat" where
  "digit_val c = of_char c - 48"

definition digit_char :: "nat \<Rightarrow> char" where
  "digit_char n = char_of (48 + n)"

text \<open>
  \<^verbatim>\<open>datetime.strptime(s, "%Y-%m-%d")\<close> compiles the format to the regular expression
  \<^verbatim>\<open>(?P<Y>\d\d\d\d)-(?P<m>1[0-2]|0[1-9]|[1-9])-(?P<d>3[0-1]|[1-2]\d|0[1-9]|[1-9]| [1-9])\<close>,
  matches it at the start of the string, and raises ValueError when there is no match,
  when the match leaves characters over, or when the three numbers are no calendar
  date. Each directive below returns its matches at the head of the string in the
  order the regular expression tries them; the first complete match is the one taken.
\<close>

definition lit :: "char \<Rightarrow> string \<Rightarrow> string list" where
  "lit c s = (case s of x # r \<Rightarrow> if x = c then [r] else [] | [] \<Rightarrow> [])"

definition dir_Y :: "string \<Rightarrow> (nat \<times> string) list" where
  "dir_Y s =
     (case s of
        a # b # c # d # r \<Rightarrow>
          if is_digit a \<and> is_digit b \<and> is_digit c \<and> is_digit d
          then [(1000 * digit_val a + 100 * digit_val b + 10 * digit_val c + digit_val d, r)]
          else []
      | _ \<Rightarrow> [])"

definition two_chars :: "string \<Rightarrow> string \<Rightarrow> string \<Rightarrow> (nat \<times> string) list" where
  "two_chars firsts seconds s =
     (case s of
        a # b # r \<Rightarrow>
          if a \<in> set firsts \<and> b \<in> set seconds
          then [(10 * digit_val a + digit_val b, r)] else []
      | _ \<Rightarrow> [])"

definition one_char :: "string \<Rightarrow> string \<Rightarrow> (nat \<times> string) list" where
  "one_char cs s =
     (case s of a # r \<Rightarrow> if a \<in> set cs then [(digit_val a, r)] else [] | [] \<Rightarrow> [])"

definition dir_m :: "string \<Rightarrow> (nat \<times> string) list" where
  "dir_m s =
     two_chars ''1'' ''012'' s @ two_chars ''0'' ''123456789'' s @ one_char ''123456789'' s"

definition dir_d :: "string \<Rightarrow> (nat \<times> string) list" where
  "dir_d s =
     two_chars ''3'' ''01'' s @ two_chars ''12'' ''0123456789'' s
     @ two_chars ''0'' ''123456789'' s @ one_char ''123456789'' s
     @ concat (map (one_char ''123456789'') (lit CHR '' '' s))"

definition format_matches :: "string \<Rightarrow> (nat \<times> nat \<times> nat \<times> string) list" where
  "format_matches s =
     concat (map (\<lambda>(y, r1).
       concat (map (\<lambda>r2.
         concat (map (\<lambda>(m, r3).
           concat (map (\<lambda>r4.
             map (\<lambda>(d, r5). (y, m, d, r5)) (dir_d r4))
           (lit CHR ''-'' r3)))
         (dir_m r2)))
       (lit CHR ''-'' r1)))
     (dir_Y s))"

definition is_leap :: "nat \<Rightarrow> bool" where
  "is_leap y = (y mod 4 = 0 \<and> (y mod 100 \<noteq> 0 \<or> y mod 400 = 0))"

definition days_in_month :: "nat \<Rightarrow> nat \<Rightarrow> nat" where
  "days_in_month y m =
     (if m = 2 then (if is_leap y then 29 else 28)
      else if m \<in> {4, 6, 9, 11} then 30 else 31)"

text \<open>The constructor \<^verbatim>\<open>datetime(y, m, d)\<close>: years 1 to 9999, a day of that month.\<close>

definition make_date :: "nat \<Rightarrow> nat \<Rightarrow> nat \<Rightarrow> date result" where
  "make_date y m d =
     (if 1 \<le> y \<and> y \<le> 9999 \<and> 1 \<le> m \<and> m \<le> 12 \<and> 1 \<le> d \<and> d \<le> days_in_month y m
      then Inr (Date y m d) else Inl ValueError)"

definition strptime :: "string \<Rightarrow> date result" where
  "strptime s =
     (case format_matches s of
        [] \<Rightarrow> Inl ValueError
      | (y, m, d, rest) # _ \<Rightarrow> if rest \<noteq> [] then Inl ValueError else make_date y m d)"

text \<open>
  \<^verbatim>\<open>strptime\<close> applied to an object: anything but a \<^verbatim>\<open>str\<close> raises TypeError.
\<close>

definition strptime_obj :: "pyval \<Rightarrow> date result" where
  "strptime_obj v = (case v of VStr s \<Rightarrow> strptime s | _ \<Rightarrow> Inl TypeError)"

text \<open>
  \<^verbatim>\<open>strftime\<close> with \<^verbatim>\<open>%Y\<close>, \<^verbatim>\<open>%m\<close>, \<^verbatim>\<open>%d\<close>: the year on four digits, month and day on
  two, zero-filled, as the library documents them. A year is at most 9999.
\<close>

definition pad2 :: "nat \<Rightarrow> string" where
  "pad2 n = [digit_char (n div 10 mod 10), digit_char (n mod 10)]"

definition pad4 :: "nat \<Rightarrow> string" where
  "pad4 n = [digit_char (n div 1000 mod 10), digit_char (n div 100 mod 10),
             digit_char (n div 10 mod 10), digit_char (n mod 10)]"

definition strftime_Y :: "date \<Rightarrow> string" where
  "strftime_Y dt = pad4 (year dt)"

definition strftime_Ym :: "date \<Rightarrow> string" where
  "strftime_Ym dt = pad4 (year dt) @ ''-'' @ pad2 (month dt)"

definition strftime_Ymd :: "date \<Rightarrow> string" where
  "strftime_Ymd dt = pad4 (year dt) @ ''-'' @ pad2 (month dt) @ ''-'' @ pad2 (day dt)"


subsection \<open>The builtin \<^verbatim>\<open>float\<close>\<close>

text \<open>
  \<^verbatim>\<open>float(x)\<close> of a string strips blanks, accepts underscores between digits only,
  and then reads a sign followed by \<^verbatim>\<open>inf\<close>, \<^verbatim>\<open>infinity\<close>, \<^verbatim>\<open>nan\<close> (in any case)
  or a decimal number with an optional fraction and exponent; anything else raises
  ValueError. Numbers and booleans convert; every other object raises TypeError.
\<close>

definition is_space :: "char \<Rightarrow> bool" where
  "is_space c = ((of_char c :: nat) \<in> {9, 10, 11, 12, 13, 28, 29, 30, 31, 32})"

definition strip :: "string \<Rightarrow> string" where
  "strip s = rev (dropWhile is_space (rev (dropWhile is_space s)))"

definition lower :: "string \<Rightarrow> string" where
  "lower s =
     map (\<lambda>c. if (65::nat) \<le> of_char c \<and> (of_char c :: nat) \<le> 90
               then char_of (of_char c + (32::nat)) else c) s"

text \<open>
  The underscore check: \<^verbatim>\<open>prev\<close> is the character before, none at the start.
  An underscore needs a digit before it and a digit after it.
\<close>

fun underscores_ok :: "char option \<Rightarrow> string \<Rightarrow> bool" where
  "underscores_ok prev [] = (prev \<noteq> Some CHR ''_'')"
| "underscores_ok prev (c # cs) =
     (if c = CHR ''_''
      then (case prev of Some p \<Rightarrow> is_digit p \<and> underscores_ok (Some c) cs | None \<Rightarrow> False)
      else (prev = Some CHR ''_'' \<longrightarrow> is_digit c) \<and> underscores_ok (Some c) cs)"

definition nat_of_digits :: "string \<Rightarrow> nat" where
  "nat_of_digits ds = foldl (\<lambda>n c. 10 * n + digit_val c) 0 ds"

definition split_sign :: "string \<Rightarrow> bool \<times> string" where
  "split_sign s =
     (case s of
        c # r \<Rightarrow> if c = CHR ''-'' then (True, r) else if c = CHR ''+'' then (False, r)
                 else (False, s)
      | [] \<Rightarrow> (False, s))"

definition parse_exponent :: "string \<Rightarrow> int option" where
  "parse_exponent s =
     (let (neg, r) = split_sign s
      in if r = [] \<or> \<not> list_all is_digit r then None
         else Some (if neg then - int (nat_of_digits r) else int (nat_of_digits r)))"

definition scale10 :: "rat \<Rightarrow> int \<Rightarrow> rat" where
  "scale10 q e = (if 0 \<le> e then q * 10 ^ nat e else q / 10 ^ nat (- e))"

definition parse_decimal :: "string \<Rightarrow> rat option" where
  "parse_decimal s =
     (let ip = takeWhile is_digit s;
          r1 = dropWhile is_digit s;
          (fp, r2) = (case r1 of
                        c # t \<Rightarrow> if c = CHR ''.''
                                 then (takeWhile is_digit t, dropWhile is_digit t)
                                 else ([], r1)
                      | [] \<Rightarrow> ([], r1))
      in if ip = [] \<and> fp = [] then None
         else
           let mant = of_nat (nat_of_digits (ip @ fp)) / 10 ^ length fp
           in (case r2 of
                 [] \<Rightarrow> Some mant
               | c # t \<Rightarrow>
                   if c = CHR ''e'' \<or> c = CHR ''E''
                   then map_option (scale10 mant) (parse_exponent t)
                   else None))"

definition float_of_str :: "string \<Rightarrow> pyfloat result" where
  "float_of_str s =
     (let t = strip s
      in if \<not> underscores_ok None t then Inl ValueError
         else
           let (neg, r) = split_sign (filter (\<lambda>c. c \<noteq> CHR ''_'') t)
           in if lower r = ''inf'' \<or> lower r = ''infinity''
              then Inr (if neg then NegInf else PosInf)
              else if lower r = ''nan'' then Inr NaN
              else (case parse_decimal r of
                      None \<Rightarrow> Inl ValueError
                    | Some q \<Rightarrow> Inr (Finite (if neg then - q else q))))"

fun py_float :: "pyval \<Rightarrow> pyfloat result" where
  "py_float (VFloat f) = Inr f"
| "py_float (VInt i) = Inr (Finite (of_int i))"
| "py_float (VBool b) = Inr (Finite (if b then 1 else 0))"
| "py_float (VStr s) = float_of_str s"
| "py_float _ = Inl TypeError"

text \<open>Addition of floats, with the IEEE rules for the non-finite values.\<close>

fun fadd :: "pyfloat \<Rightarrow> pyfloat \<Rightarrow> pyfloat" where
  "fadd (Finite a) (Finite b) = Finite (a + b)"
| "fadd NaN _ = NaN"
| "fadd _ NaN = NaN"
| "fadd PosInf NegInf = NaN"
| "fadd NegInf PosInf = NaN"
| "fadd PosInf _ = PosInf"
| "fadd NegInf _ = NegInf"
| "fadd _ PosInf = PosInf"
| "fadd _ NegInf = NegInf"


section \<open>The remote data client: \<^verbatim>\<open>query_ido\<close>\<close>

text \<open>
  The three configuration values are read from the environment once: each is absent
  (\<^verbatim>\<open>os.getenv\<close> gives \<^verbatim>\<open>None\<close>) or a string. Line 93 tests their truth
  value, so an empty string counts as absent too.
\<close>

record config =
  BASE_URL :: "string option"
  MONGOOSE_CONFIG :: "string option"
  API_TOKEN :: "string option"

text \<open>
  The network is a function from the GET request sent to what comes back: the transport
  fails, or a reply arrives with a status and a body, the body being the decoded JSON
  value or nothing when it is not JSON. \<^verbatim>\<open>query_ido\<close> returns its records together
  with the list of requests it sent, so that sending none can be stated.
\<close>

record request =
  url :: string
  params :: "(string \<times> pyval) list"
  headers :: "(string \<times> string) list"
  timeout :: nat

datatype reply = TransportFailure | Reply nat "pyval option"

definition rstrip_slash :: "string \<Rightarrow> string" where
  "rstrip_slash s = rev (dropWhile (\<lambda>c. c = CHR ''/'') (rev s))"

fun join :: "string \<Rightarrow> string list \<Rightarrow> string" where
  "join sep [] = []"
| "join sep [x] = x"
| "join sep (x # y # ys) = x @ sep @ join sep (y # ys)"

text \<open>Lines 97 to 114: the request built from the arguments.\<close>

definition build_request ::
  "string \<Rightarrow> string \<Rightarrow> string \<Rightarrow> string \<Rightarrow> string list option \<Rightarrow> string option \<Rightarrow>
   string option \<Rightarrow> int \<Rightarrow> request" where
  "build_request base cfg token ido properties filter_expr order_by record_cap =
     \<lparr> url = rstrip_slash base @ ''/ido/'' @ ido @ ''/load'',
       params =
         (case properties of
            Some (p # ps) \<Rightarrow> [(''properties'', VStr (join '','' (p # ps)))] | _ \<Rightarrow> [])
         @ (case filter_expr of
              Some (c # cs) \<Rightarrow> [(''filter'', VStr (c # cs))] | _ \<Rightarrow> [])
         @ (case order_by of
              Some (c # cs) \<Rightarrow> [(''orderBy'', VStr (c # cs))] | _ \<Rightarrow> [])
         @ [(''recordCap'', VInt record_cap)],
       headers = [(''Authorization'', ''Mongoose '' @ token),
                  (''X-Infor-MongooseConfig'', cfg)],
       timeout = 30 \<rparr>"

text \<open>
  Lines 117 to 125, the body of the \<^verbatim>\<open>try\<close>: \<^verbatim>\<open>raise_for_status\<close> raises on a
  status from 400 to 599, \<^verbatim>\<open>resp.json()\<close> raises on a body that is not JSON, and
  \<^verbatim>\<open>data.get\<close> exists on a dictionary only.
\<close>

definition read_reply :: "reply \<Rightarrow> pyval list result" where
  "read_reply rp =
     (case rp of
        TransportFailure \<Rightarrow> Inl RequestException
      | Reply status body \<Rightarrow>
          if 400 \<le> status \<and> status < 600 then Inl HTTPError
          else (case body of
                  None \<Rightarrow> Inl JSONDecodeError
                | Some data \<Rightarrow>
                    (case data of
                       VDict d \<Rightarrow>
                         (let got = (case map_of d ''items'' of Some v \<Rightarrow> v | None \<Rightarrow> VNone);
                              items = (if truthy got then got else data)
                          in (case items of VList rows \<Rightarrow> Inr rows | _ \<Rightarrow> Inr []))
                     | _ \<Rightarrow> Inl AttributeError)))"

definition query_ido ::
  "config \<Rightarrow> (request \<Rightarrow> reply) \<Rightarrow> string \<Rightarrow> string list option \<Rightarrow> string option \<Rightarrow>
   string option \<Rightarrow> int \<Rightarrow> pyval list \<times> request list" where
  "query_ido env net ido properties filter_expr order_by record_cap =
     (case (BASE_URL env, MONGOOSE_CONFIG env, API_TOKEN env) of
        (Some base, Some cfg, Some token) \<Rightarrow>
          if base = [] \<or> cfg = [] \<or> token = [] then ([], [])
          else
            (let rq = build_request base cfg token ido properties filter_expr order_by
                        record_cap
             in (case read_reply (net rq) of
                   Inl _ \<Rightarrow> ([], [rq])
                 | Inr rows \<Rightarrow> (rows, [rq])))
      | _ \<Rightarrow> ([], []))"

section \<open>The fallback dataset and the report\<close>

definition sale :: "string \<Rightarrow> string \<Rightarrow> rat \<Rightarrow> string \<Rightarrow> string \<Rightarrow> pyval" where
  "sale d t a c i =
     VDict [(''TransDate'', VStr d), (''Type'', VStr t), (''Amount'', VFloat (Finite a)),
            (''CustNum'', VStr c), (''Item'', VStr i)]"

definition DUMMY_SALES :: "pyval list" where
  "DUMMY_SALES =
     [sale ''2026-01-01'' ''Product'' 1200 ''C0001'' ''A100'',
      sale ''2026-01-01'' ''Service'' 250 ''C0002'' ''SV01'',
      sale ''2026-01-02'' ''Freight'' 75 ''C0003'' ''FR01'',
      sale ''2026-01-02'' ''Misc'' 50 ''C0001'' ''MISC'',
      sale ''2026-01-05'' ''Product'' 800 ''C0002'' ''A200'',
      sale ''2026-02-01'' ''Service'' 300 ''C0003'' ''SV02'']"

text \<open>\<^verbatim>\<open>row[key]\<close>: a missing key raises KeyError, an object that is no dictionary TypeError.\<close>

definition subscript :: "pyval \<Rightarrow> string \<Rightarrow> pyval result" where
  "subscript row k =
     (case row of
        VDict d \<Rightarrow> (case map_of d k of Some v \<Rightarrow> Inr v | None \<Rightarrow> Inl KeyError)
      | _ \<Rightarrow> Inl TypeError)"

text \<open>\<^verbatim>\<open>datetime.strptime(row["TransDate"], "%Y-%m-%d")\<close>, of lines 186 and 202.\<close>

definition row_datetime :: "pyval \<Rightarrow> date result" where
  "row_datetime row =
     (case subscript row ''TransDate'' of Inl e \<Rightarrow> Inl e | Inr v \<Rightarrow> strptime_obj v)"

text \<open>
  Lines 185 and 186: the comprehension over the fallback rows. Nothing catches an
  exception of the condition.
\<close>

fun filter_range :: "date \<Rightarrow> date \<Rightarrow> pyval list \<Rightarrow> pyval list result" where
  "filter_range start_dt end_dt [] = Inr []"
| "filter_range start_dt end_dt (row # rows) =
     (case row_datetime row of
        Inl e \<Rightarrow> Inl e
      | Inr d \<Rightarrow>
          (case filter_range start_dt end_dt rows of
             Inl e \<Rightarrow> Inl e
           | Inr kept \<Rightarrow>
               Inr (if date_le start_dt d \<and> date_le d end_dt then row # kept else kept)))"


text \<open>
  Lines 189 to 195: the normalisation of the rows of a live answer. The operator
  \<^verbatim>\<open>in\<close> tests the keys of a dictionary, the elements of a list and the substrings
  of a string, and raises TypeError on the other objects; \<^verbatim>\<open>pop\<close> and \<^verbatim>\<open>get\<close>
  with these arguments work on a dictionary only.
\<close>

definition substring :: "string \<Rightarrow> string \<Rightarrow> bool" where
  "substring k s = list_ex (\<lambda>i. take (length k) (drop i s) = k) [0..<Suc (length s)]"

definition contains :: "pyval \<Rightarrow> string \<Rightarrow> bool result" where
  "contains row k =
     (case row of
        VDict d \<Rightarrow> Inr (map_of d k \<noteq> None)
      | VList xs \<Rightarrow> Inr (VStr k \<in> set xs)
      | VStr s \<Rightarrow> Inr (substring k s)
      | _ \<Rightarrow> Inl TypeError)"

text \<open>Line 192: \<^verbatim>\<open>row["TransDate"] = row.pop("InvoiceDate")\<close>.\<close>

definition rename_invoice_date :: "pyval \<Rightarrow> pyval result" where
  "rename_invoice_date row =
     (case row of
        VDict d \<Rightarrow>
          (case map_of d ''InvoiceDate'' of
             Some v \<Rightarrow> Inr (VDict (AList.update ''TransDate'' v (AList.delete ''InvoiceDate'' d)))
           | None \<Rightarrow> Inl KeyError)
      | VList xs \<Rightarrow> Inl TypeError
      | _ \<Rightarrow> Inl AttributeError)"

text \<open>Lines 194 and 195: a \<^verbatim>\<open>datetime\<close> under TransDate becomes its ISO string.\<close>

definition iso_trans_date :: "pyval \<Rightarrow> pyval result" where
  "iso_trans_date row =
     (case row of
        VDict d \<Rightarrow>
          (case map_of d ''TransDate'' of
             Some (VDatetime dt) \<Rightarrow>
               Inr (VDict (AList.update ''TransDate'' (VStr (strftime_Ymd dt)) d))
           | _ \<Rightarrow> Inr row)
      | _ \<Rightarrow> Inl AttributeError)"

definition normalize_row :: "pyval \<Rightarrow> pyval result" where
  "normalize_row row =
     (case contains row ''InvoiceDate'' of
        Inl e \<Rightarrow> Inl e
      | Inr has \<Rightarrow>
          (case (if has then rename_invoice_date row else Inr row) of
             Inl e \<Rightarrow> Inl e
           | Inr row' \<Rightarrow> iso_trans_date row'))"

text \<open>
  The loop of line 189 rewrites the rows of \<^verbatim>\<open>records\<close> one after the other, and the
  first exception leaves the handler.
\<close>

fun normalize_rows :: "pyval list \<Rightarrow> pyval list result" where
  "normalize_rows [] = Inr []"
| "normalize_rows (row # rows) =
     (case normalize_row row of
        Inl e \<Rightarrow> Inl e
      | Inr row' \<Rightarrow>
          (case normalize_rows rows of Inl e \<Rightarrow> Inl e | Inr rows' \<Rightarrow> Inr (row' # rows')))"

text \<open>Lines 205 to 210: the key of a row's bucket.\<close>

definition period_key :: "string \<Rightarrow> date \<Rightarrow> string" where
  "period_key group_by dt =
     (if group_by = ''day'' then strftime_Ymd dt
      else if group_by = ''month'' then strftime_Ym dt
      else strftime_Y dt)"

text \<open>\<^verbatim>\<open>float(row.get("Amount", 0))\<close> of line 211.\<close>

definition row_amount :: "pyval \<Rightarrow> pyfloat result" where
  "row_amount row =
     (case row of
        VDict d \<Rightarrow> py_float (case map_of d ''Amount'' of Some v \<Rightarrow> v | None \<Rightarrow> VInt 0)
      | _ \<Rightarrow> Inl AttributeError)"

text \<open>
  The summary is a dictionary from keys to totals, in insertion order.
  \<^verbatim>\<open>summary.get(key, 0.0)\<close> reads it.
\<close>

type_synonym summary = "(string \<times> pyfloat) list"

definition get_total :: "summary \<Rightarrow> string \<Rightarrow> pyfloat" where
  "get_total summary k = (case map_of summary k of Some t \<Rightarrow> t | None \<Rightarrow> Finite 0)"

text \<open>
  Lines 199 to 211: the grouping loop. The \<^verbatim>\<open>try\<close> of line 201 covers the date of the
  row only, and sends every exception to \<^verbatim>\<open>continue\<close>; line 211 is outside it.
\<close>

fun group_rows :: "string \<Rightarrow> pyval list \<Rightarrow> summary \<Rightarrow> summary result" where
  "group_rows group_by [] summary = Inr summary"
| "group_rows group_by (row # rows) summary =
     (case row_datetime row of
        Inl _ \<Rightarrow> group_rows group_by rows summary
      | Inr dt \<Rightarrow>
          (let key = period_key group_by dt
           in (case row_amount row of
                 Inl e \<Rightarrow> Inl e
               | Inr a \<Rightarrow>
                   group_rows group_by rows
                     (AList.update key (fadd (get_total summary key) a) summary))))"

text \<open>
  The context handed to the template \<^verbatim>\<open>results.html\<close>. The error context of line 169
  has no \<^verbatim>\<open>items\<close> entry; it is \<open>None\<close> here, as in the other context.
\<close>

record template_context =
  sales_summary :: "summary option"
  items :: "pyval list option"
  error :: "string option"

definition invalid_date_context :: template_context where
  "invalid_date_context =
     \<lparr> sales_summary = Some [], items = None,
       error = Some ''Invalid date format. Please use YYYY-MM-DD.'' \<rparr>"

text \<open>Lines 164 to 167: both dates, or the ValueError of the first that fails.\<close>

definition parse_dates :: "string \<Rightarrow> string \<Rightarrow> (date \<times> date) result" where
  "parse_dates start_date end_date =
     (case strptime start_date of
        Inl e \<Rightarrow> Inl e
      | Inr start_dt \<Rightarrow>
          (case strptime end_date of Inl e \<Rightarrow> Inl e | Inr end_dt \<Rightarrow> Inr (start_dt, end_dt)))"

definition report_query :: "config \<Rightarrow> (request \<Rightarrow> reply) \<Rightarrow> string \<Rightarrow> string \<Rightarrow>
    pyval list \<times> request list" where
  "report_query env net start_date end_date =
     query_ido env net ''SLPostedInvoices''
       (Some [''InvoiceDate'', ''Type'', ''Amount'', ''CustNum''])
       (Some (''InvoiceDate>='' @ [CHR 0x27] @ start_date @ [CHR 0x27]
              @ '' AND InvoiceDate<='' @ [CHR 0x27] @ end_date @ [CHR 0x27]))
       None 0"

text \<open>
  \<^verbatim>\<open>sales_report\<close>: the context rendered or the exception that leaves the handler,
  and the requests sent.
\<close>

definition sales_report ::
  "config \<Rightarrow> (request \<Rightarrow> reply) \<Rightarrow> string \<Rightarrow> string \<Rightarrow> string \<Rightarrow>
   template_context result \<times> request list" where
  "sales_report env net start_date end_date group_by =
     (case parse_dates start_date end_date of
        Inl e \<Rightarrow> (if e = ValueError then Inr invalid_date_context else Inl e, [])
      | Inr (start_dt, end_dt) \<Rightarrow>
          (let (records, sent) = report_query env net start_date end_date;
               prepared = (if records = [] then filter_range start_dt end_dt DUMMY_SALES
                           else normalize_rows records)
           in (case prepared of
                 Inl e \<Rightarrow> Inl e
               | Inr rows \<Rightarrow>
                   (case group_rows group_by rows [] of
                      Inl e \<Rightarrow> Inl e
                    | Inr summary \<Rightarrow>
                        Inr \<lparr> sales_summary = Some summary, items = None, error = None \<rparr>),
               sent)))"


section \<open>The normalisation as the specification words it\<close>

text \<open>
  On the fields of a record, the specification describes the normalisation of a live
  record as a renaming followed by a formatting: the value under \<^verbatim>\<open>InvoiceDate\<close>
  moves to \<^verbatim>\<open>TransDate\<close>, and a \<^verbatim>\<open>datetime\<close> under \<^verbatim>\<open>TransDate\<close> becomes its
  ISO string. These two definitions follow that description; \<open>normalize_row\<close> above
  follows the code, and the two are compared below.
\<close>

definition iso_string :: "pyval \<Rightarrow> pyval" where
  "iso_string v = (case v of VDatetime dt \<Rightarrow> VStr (strftime_Ymd dt) | _ \<Rightarrow> v)"

definition normalized_fields :: "(string \<rightharpoonup> pyval) \<Rightarrow> (string \<rightharpoonup> pyval)" where
  "normalized_fields m =
     (let renamed = (case m ''InvoiceDate'' of
                       Some v \<Rightarrow> (m(''InvoiceDate'' := None))(''TransDate'' \<mapsto> v)
                     | None \<Rightarrow> m)
      in (case renamed ''TransDate'' of
            Some v \<Rightarrow> renamed(''TransDate'' \<mapsto> iso_string v)
          | None \<Rightarrow> renamed))"

section \<open>The remote data client without configuration\<close>

text \<open>
  C3. When one of the three configuration values (base endpoint, tenant and site
  identifier, token) is absent, \<^verbatim>\<open>query_ido\<close> returns the empty list and sends no
  request. An empty string is as good as absent.
\<close>

theorem query_ido_missing_configuration:
  assumes "BASE_URL env \<in> {None, Some []} \<or> MONGOOSE_CONFIG env \<in> {None, Some []}
           \<or> API_TOKEN env \<in> {None, Some []}"
  shows "query_ido env net ido properties filter_expr order_by record_cap = ([], [])"
  using assms by (auto simp: query_ido_def split: option.splits)

theorem query_ido_missing_configuration_witness:
  "query_ido \<lparr>BASE_URL = Some ''https://host/idoapi'', MONGOOSE_CONFIG = None,
              API_TOKEN = Some ''secret''\<rparr>
     (\<lambda>rq. Reply 200 (Some (VList [VDict [(''CustNum'', VStr ''C0001'')]])))
     ''SLCustomers'' None None None 0 = ([], [])"
  using query_ido_missing_configuration
    [of "\<lparr>BASE_URL = Some ''https://host/idoapi'', MONGOOSE_CONFIG = None,
           API_TOKEN = Some ''secret''\<rparr>"
        "\<lambda>rq. Reply 200 (Some (VList [VDict [(''CustNum'', VStr ''C0001'')]]))"
        "''SLCustomers''" None None None 0]
  by simp


section \<open>The shape of the answer\<close>

text \<open>
  C1. A body \<^verbatim>\<open>{"items": L}\<close> and a body that is the bare list \<^verbatim>\<open>L\<close> should give the
  same records. They do not: line 122 calls \<^verbatim>\<open>data.get\<close> on the decoded body before
  anything else, a list has no \<^verbatim>\<open>get\<close>, and the AttributeError is caught by the
  handler of line 126, which returns the empty list. With one customer record, the
  wrapped body gives the record and the bare list gives nothing.
\<close>

theorem query_ido_bare_list_is_dropped:
  "fst (query_ido \<lparr>BASE_URL = Some ''https://host/idoapi'', MONGOOSE_CONFIG = Some ''grp:site'',
                    API_TOKEN = Some ''secret''\<rparr>
          (\<lambda>rq. Reply 200 (Some (VDict [(''items'', VList [VDict [(''CustNum'', VStr ''C0001'')]])])))
          ''SLCustomers'' None None None 0) = [VDict [(''CustNum'', VStr ''C0001'')]]
   \<and> fst (query_ido \<lparr>BASE_URL = Some ''https://host/idoapi'', MONGOOSE_CONFIG = Some ''grp:site'',
                      API_TOKEN = Some ''secret''\<rparr>
          (\<lambda>rq. Reply 200 (Some (VList [VDict [(''CustNum'', VStr ''C0001'')]])))
          ''SLCustomers'' None None None 0) = []"
  by (simp add: query_ido_def read_reply_def)

section \<open>Exceptions that leave the report\<close>

text \<open>
  C2. No operation should let an exception escape, the coercion of the amount included.
  The \<^verbatim>\<open>try\<close> of the grouping loop ends before line 211, so
  \<^verbatim>\<open>float(row.get("Amount", 0))\<close> is unprotected: a live record whose amount is
  \<^verbatim>\<open>null\<close> makes \<^verbatim>\<open>float(None)\<close> raise TypeError, and the exception leaves
  \<^verbatim>\<open>sales_report\<close>.
\<close>

theorem sales_report_amount_raises:
  "fst (sales_report \<lparr>BASE_URL = Some ''https://host/idoapi'', MONGOOSE_CONFIG = Some ''grp:site'',
                       API_TOKEN = Some ''secret''\<rparr>
          (\<lambda>rq. Reply 200 (Some (VDict [(''items'',
                    VList [VDict [(''InvoiceDate'', VStr ''2026-01-01''), (''Amount'', VNone)]])])))
          ''2026-01-01'' ''2026-01-31'' ''day'') = Inl TypeError"
  by code_simp

section \<open>The report on the fallback dataset\<close>

lemma parse_dates_first_two_days:
  "parse_dates ''2026-01-01'' ''2026-01-02'' = Inr (Date 2026 1 1, Date 2026 1 2)"
  by code_simp

lemma filter_range_first_two_days:
  "filter_range (Date 2026 1 1) (Date 2026 1 2) DUMMY_SALES =
     Inr [sale ''2026-01-01'' ''Product'' 1200 ''C0001'' ''A100'',
          sale ''2026-01-01'' ''Service'' 250 ''C0002'' ''SV01'',
          sale ''2026-01-02'' ''Freight'' 75 ''C0003'' ''FR01'',
          sale ''2026-01-02'' ''Misc'' 50 ''C0001'' ''MISC'']"
  by code_simp

lemma group_rows_first_two_days:
  "group_rows ''day''
     [sale ''2026-01-01'' ''Product'' 1200 ''C0001'' ''A100'',
      sale ''2026-01-01'' ''Service'' 250 ''C0002'' ''SV01'',
      sale ''2026-01-02'' ''Freight'' 75 ''C0003'' ''FR01'',
      sale ''2026-01-02'' ''Misc'' 50 ''C0001'' ''MISC''] []
   = Inr [(''2026-01-01'', Finite 1450), (''2026-01-02'', Finite 125)]"
  by code_simp

text \<open>
  C7. From 2026-01-01 to 2026-01-02 by day, when the remote client gives no record and
  the fallback dataset is used, the summary has exactly two buckets: 2026-01-01 with
  1450.0 and 2026-01-02 with 125.0.
\<close>

theorem sales_report_fallback_two_days:
  assumes "fst (report_query env net ''2026-01-01'' ''2026-01-02'') = []"
  shows "fst (sales_report env net ''2026-01-01'' ''2026-01-02'' ''day'') =
           Inr \<lparr>sales_summary = Some [(''2026-01-01'', Finite 1450), (''2026-01-02'', Finite 125)],
                 items = None, error = None\<rparr>"
proof -
  obtain sent where q: "report_query env net ''2026-01-01'' ''2026-01-02'' = ([], sent)"
    using assms by (cases "report_query env net ''2026-01-01'' ''2026-01-02''") simp
  show ?thesis
    unfolding sales_report_def parse_dates_first_two_days
    by (simp only: q prod.case Let_def simp_thms if_True filter_range_first_two_days
          group_rows_first_two_days sum.case fst_conv)
qed

theorem sales_report_fallback_two_days_witness:
  "fst (sales_report \<lparr>BASE_URL = None, MONGOOSE_CONFIG = None, API_TOKEN = None\<rparr>
          (\<lambda>rq. TransportFailure) ''2026-01-01'' ''2026-01-02'' ''day'') =
     Inr \<lparr>sales_summary = Some [(''2026-01-01'', Finite 1450), (''2026-01-02'', Finite 125)],
           items = None, error = None\<rparr>"
  using sales_report_fallback_two_days
    [of "\<lparr>BASE_URL = None, MONGOOSE_CONFIG = None, API_TOKEN = None\<rparr>" "\<lambda>rq. TransportFailure"]
  by (simp add: report_query_def query_ido_def)


section \<open>Dates of the form that do not parse\<close>

lemma strptime_error: "strptime s = Inl e \<Longrightarrow> e = ValueError"
  by (auto simp: strptime_def make_date_def split: list.splits if_splits)

lemma parse_dates_error: "parse_dates a b = Inl e \<Longrightarrow> e = ValueError"
  by (auto simp: parse_dates_def split: sum.splits dest: strptime_error)

text \<open>
  C4. When \<^verbatim>\<open>start_date\<close> or \<^verbatim>\<open>end_date\<close> does not parse with the format
  \<^verbatim>\<open>%Y-%m-%d\<close>, the handler answers with the error message and an empty summary;
  no exception leaves it, no request is sent and nothing is aggregated.
\<close>

theorem sales_report_invalid_date:
  assumes "isl (strptime start_date) \<or> isl (strptime end_date)"
  shows "sales_report env net start_date end_date group_by =
           (Inr \<lparr>sales_summary = Some [], items = None,
                  error = Some ''Invalid date format. Please use YYYY-MM-DD.''\<rparr>, [])"
proof -
  have "isl (parse_dates start_date end_date)"
    using assms by (auto simp: parse_dates_def split: sum.splits)
  then obtain e where e: "parse_dates start_date end_date = Inl e"
    by (cases "parse_dates start_date end_date") auto
  then have "e = ValueError" by (rule parse_dates_error)
  with e show ?thesis by (simp add: sales_report_def invalid_date_context_def)
qed

theorem sales_report_invalid_date_witness:
  "sales_report \<lparr>BASE_URL = Some ''https://host/idoapi'', MONGOOSE_CONFIG = Some ''grp:site'',
                  API_TOKEN = Some ''secret''\<rparr>
     (\<lambda>rq. Reply 200 (Some (VList []))) ''13/40/2026'' ''2026-01-02'' ''day''
   = (Inr \<lparr>sales_summary = Some [], items = None,
            error = Some ''Invalid date format. Please use YYYY-MM-DD.''\<rparr>, [])"
proof -
  have "isl (strptime ''13/40/2026'')" by code_simp
  then show ?thesis
    using sales_report_invalid_date [of "''13/40/2026''" "''2026-01-02''"] by simp
qed

section \<open>A range that ends before it starts\<close>

lemma date_le_trans: "date_le a b \<Longrightarrow> date_le b c \<Longrightarrow> date_le a c"
  by (auto simp: date_le_def)

lemma filter_range_empty:
  "date_gt s e \<Longrightarrow> filter_range s e rows = Inr kept \<Longrightarrow> kept = []"
proof (induction rows arbitrary: kept)
  case Nil
  then show ?case by simp
next
  case (Cons row rows)
  then show ?case
    by (auto simp: date_gt_def split: sum.splits if_splits dest: date_le_trans)
qed

lemma filter_range_total:
  "list_all (\<lambda>row. \<not> isl (row_datetime row)) rows \<Longrightarrow> \<exists>kept. filter_range s e rows = Inr kept"
proof (induction rows)
  case Nil
  then show ?case by simp
next
  case (Cons row rows)
  then obtain kept d where "filter_range s e rows = Inr kept" "row_datetime row = Inr d"
    by (cases "row_datetime row") auto
  then show ?case by simp
qed

lemma DUMMY_SALES_dates: "list_all (\<lambda>row. \<not> isl (row_datetime row)) DUMMY_SALES"
  by code_simp

text \<open>
  C5. When both dates parse and the start is after the end, the report made from the
  fallback dataset has an empty summary: no row passes the inclusive filter.
\<close>

theorem sales_report_fallback_reversed_range:
  assumes "parse_dates start_date end_date = Inr (start_dt, end_dt)"
    and "date_gt start_dt end_dt"
    and "fst (report_query env net start_date end_date) = []"
  shows "fst (sales_report env net start_date end_date group_by) =
           Inr \<lparr>sales_summary = Some [], items = None, error = None\<rparr>"
proof -
  obtain sent where q: "report_query env net start_date end_date = ([], sent)"
    using assms(3) by (cases "report_query env net start_date end_date") simp
  obtain kept where "filter_range start_dt end_dt DUMMY_SALES = Inr kept"
    using filter_range_total [OF DUMMY_SALES_dates] by blast
  moreover from this have "kept = []"
    using filter_range_empty [OF assms(2)] by blast
  ultimately show ?thesis
    by (simp add: sales_report_def assms(1) q)
qed

theorem sales_report_fallback_reversed_range_witness:
  "fst (sales_report \<lparr>BASE_URL = None, MONGOOSE_CONFIG = None, API_TOKEN = None\<rparr>
          (\<lambda>rq. TransportFailure) ''2026-02-01'' ''2026-01-01'' ''month'') =
     Inr \<lparr>sales_summary = Some [], items = None, error = None\<rparr>"
proof -
  have p: "parse_dates ''2026-02-01'' ''2026-01-01'' = Inr (Date 2026 2 1, Date 2026 1 1)"
    by code_simp
  have g: "date_gt (Date 2026 2 1) (Date 2026 1 1)"
    by (simp add: date_gt_def date_le_def)
  have q: "fst (report_query \<lparr>BASE_URL = None, MONGOOSE_CONFIG = None, API_TOKEN = None\<rparr>
                  (\<lambda>rq. TransportFailure) ''2026-02-01'' ''2026-01-01'') = []"
    by (simp add: report_query_def query_ido_def)
  show ?thesis
    by (rule sales_report_fallback_reversed_range [OF p g q])
qed

section \<open>Rows without a date\<close>

text \<open>
  C9. A row of the grouped set whose date does not parse (or that has no
  \<^verbatim>\<open>TransDate\<close>, or one that is no string) is skipped: the grouping loop gives what it
  gives on the same rows without that one, so the row adds to no bucket, raises nothing,
  and the rows before and after it are aggregated as they would be without it.
\<close>

theorem group_rows_skips_unparsed_date:
  assumes "isl (row_datetime row)"
  shows "group_rows group_by (before @ row # after) summary =
         group_rows group_by (before @ after) summary"
  using assms
proof (induction before arbitrary: summary)
  case Nil
  then show ?case by (cases "row_datetime row") simp_all
next
  case (Cons r before)
  then show ?case by (simp split: sum.splits add: Let_def)
qed

theorem group_rows_skips_unparsed_date_witness:
  "group_rows ''month''
     [VDict [(''TransDate'', VStr ''2026-01-05''), (''Amount'', VInt 10)],
      VDict [(''TransDate'', VStr ''2026-02-30''), (''Amount'', VInt 99)],
      VDict [(''TransDate'', VStr ''2026-01-20''), (''Amount'', VFloat (Finite (5 / 2)))]] []
   = Inr [(''2026-01'', Finite (25 / 2))]"
proof -
  have bad: "isl (row_datetime (VDict [(''TransDate'', VStr ''2026-02-30''), (''Amount'', VInt 99)]))"
    by code_simp
  have rest: "group_rows ''month''
      ([VDict [(''TransDate'', VStr ''2026-01-05''), (''Amount'', VInt 10)]]
       @ [VDict [(''TransDate'', VStr ''2026-01-20''), (''Amount'', VFloat (Finite (5 / 2)))]]) []
    = Inr [(''2026-01'', Finite (25 / 2))]"
    by code_simp
  show ?thesis
    using group_rows_skips_unparsed_date [OF bad, of "''month''"
        "[VDict [(''TransDate'', VStr ''2026-01-05''), (''Amount'', VInt 10)]]"
        "[VDict [(''TransDate'', VStr ''2026-01-20''), (''Amount'', VFloat (Finite (5 / 2)))]]" "[]"]
      rest
    by simp
qed


section \<open>Digits, and dates printed back\<close>


























section \<open>The key of a bucket\<close>



section \<open>The normalisation of live records\<close>

lemma iso_trans_date_fields:
  "\<exists>d'. iso_trans_date (VDict d) = Inr (VDict d')
        \<and> map_of d' = (case map_of d ''TransDate'' of
                         Some v \<Rightarrow> (map_of d)(''TransDate'' \<mapsto> iso_string v)
                       | None \<Rightarrow> map_of d)"
proof (cases "map_of d ''TransDate''")
  case None
  then show ?thesis by (simp add: iso_trans_date_def)
next
  case (Some v)
  then show ?thesis
    by (cases v) (simp_all add: iso_trans_date_def iso_string_def update_conv' map_upd_triv)
qed

lemma normalize_row_fields:
  "\<exists>d'. normalize_row (VDict d) = Inr (VDict d') \<and> map_of d' = normalized_fields (map_of d)"
proof (cases "map_of d ''InvoiceDate''")
  case None
  then have "normalize_row (VDict d) = iso_trans_date (VDict d)"
    by (simp add: normalize_row_def contains_def)
  with None iso_trans_date_fields [of d] show ?thesis
    by (simp add: normalized_fields_def Let_def)
next
  case (Some v)
  let ?d1 = "AList.update ''TransDate'' v (AList.delete ''InvoiceDate'' d)"
  have m1: "map_of ?d1 = ((map_of d)(''InvoiceDate'' := None))(''TransDate'' \<mapsto> v)"
    by (simp add: update_conv' delete_conv')
  have "normalize_row (VDict d) = iso_trans_date (VDict ?d1)"
    using Some by (simp add: normalize_row_def contains_def rename_invoice_date_def)
  with Some iso_trans_date_fields [of ?d1] show ?thesis
    unfolding m1 by (simp add: normalized_fields_def Let_def)
qed

lemma normalize_rows_nth:
  "normalize_rows records = Inr rows \<Longrightarrow>
   length rows = length records \<and> (\<forall>i<length records. normalize_row (records ! i) = Inr (rows ! i))"
proof (induction records arbitrary: rows)
  case Nil
  then show ?case by simp
next
  case (Cons row records)
  then obtain row' rows' where r: "normalize_row row = Inr row'" "normalize_rows records = Inr rows'"
    and rows: "rows = row' # rows'"
    by (auto split: sum.splits)
  from Cons.IH [OF r(2)] r(1) show ?case
    unfolding rows by (auto simp: nth_Cons split: nat.splits)
qed

lemma normalize_rows_dicts:
  "\<forall>row\<in>set records. \<exists>d. row = VDict d \<Longrightarrow> \<exists>rows. normalize_rows records = Inr rows"
proof (induction records)
  case Nil
  then show ?case by simp
next
  case (Cons row records)
  then obtain d rows where "row = VDict d" "normalize_rows records = Inr rows" by auto
  moreover obtain d' where "normalize_row (VDict d) = Inr (VDict d')"
    using normalize_row_fields by blast
  ultimately show ?case by simp
qed

text \<open>
  C8. When the remote client gives a non-empty list of records (dictionaries), the
  report applies no date filter to them: every record goes to the grouping loop, at its
  place, whatever its date, and all that changed in a record is what the normalisation
  says: the date under \<^verbatim>\<open>InvoiceDate\<close> is now under \<^verbatim>\<open>TransDate\<close>, as an ISO string
  when it was a \<^verbatim>\<open>datetime\<close>. The summary is the one of the grouping loop on these
  records.
\<close>

theorem sales_report_live_not_refiltered:
  assumes dates: "parse_dates start_date end_date = Inr (start_dt, end_dt)"
    and live: "report_query env net start_date end_date = (records, sent)" "records \<noteq> []"
    and dicts: "\<forall>row\<in>set records. \<exists>d. row = VDict d"
  shows "\<exists>rows. normalize_rows records = Inr rows \<and> length rows = length records
           \<and> (\<forall>i<length records. \<exists>d d'. records ! i = VDict d \<and> rows ! i = VDict d'
                  \<and> map_of d' = normalized_fields (map_of d))
           \<and> fst (sales_report env net start_date end_date group_by) =
               (case group_rows group_by rows [] of
                  Inl e \<Rightarrow> Inl e
                | Inr summary \<Rightarrow> Inr \<lparr>sales_summary = Some summary, items = None, error = None\<rparr>)"
proof -
  obtain rows where rows: "normalize_rows records = Inr rows"
    using normalize_rows_dicts [OF dicts] by blast
  note nth = normalize_rows_nth [OF rows]
  have "\<exists>d d'. records ! i = VDict d \<and> rows ! i = VDict d' \<and> map_of d' = normalized_fields (map_of d)"
    if i: "i < length records" for i
  proof -
    obtain d where d: "records ! i = VDict d" using dicts i by (metis nth_mem)
    obtain d' where d': "normalize_row (VDict d) = Inr (VDict d')"
      "map_of d' = normalized_fields (map_of d)"
      using normalize_row_fields by blast
    have "normalize_row (records ! i) = Inr (rows ! i)" using nth i by blast
    then have "rows ! i = VDict d'" using d d'(1) by simp
    then show ?thesis using d d'(2) by blast
  qed
  moreover have "fst (sales_report env net start_date end_date group_by) =
               (case group_rows group_by rows [] of
                  Inl e \<Rightarrow> Inl e
                | Inr summary \<Rightarrow> Inr \<lparr>sales_summary = Some summary, items = None, error = None\<rparr>)"
    using live(2) by (simp add: sales_report_def dates live(1) rows)
  ultimately show ?thesis using rows nth by blast
qed

theorem sales_report_live_not_refiltered_witness:
  "fst (sales_report \<lparr>BASE_URL = Some ''https://host/idoapi'', MONGOOSE_CONFIG = Some ''grp:site'',
                       API_TOKEN = Some ''secret''\<rparr>
          (\<lambda>rq. Reply 200 (Some (VDict [(''items'',
                    VList [VDict [(''InvoiceDate'', VStr ''2020-05-05''), (''Amount'', VInt 10)]])])))
          ''2026-01-01'' ''2026-01-31'' ''year'')
   = Inr \<lparr>sales_summary = Some [(''2020'', Finite 10)], items = None, error = None\<rparr>"
proof -
  let ?env = "\<lparr>BASE_URL = Some ''https://host/idoapi'', MONGOOSE_CONFIG = Some ''grp:site'',
                API_TOKEN = Some ''secret''\<rparr>"
  let ?net = "\<lambda>rq::request. Reply 200 (Some (VDict [(''items'',
                VList [VDict [(''InvoiceDate'', VStr ''2020-05-05''), (''Amount'', VInt 10)]])]))"
  let ?records = "[VDict [(''InvoiceDate'', VStr ''2020-05-05''), (''Amount'', VInt 10)]]"
  have dates: "parse_dates ''2026-01-01'' ''2026-01-31'' = Inr (Date 2026 1 1, Date 2026 1 31)"
    by code_simp
  have "fst (report_query ?env ?net ''2026-01-01'' ''2026-01-31'') = ?records"
    by (simp add: report_query_def query_ido_def read_reply_def)
  then obtain sent where live: "report_query ?env ?net ''2026-01-01'' ''2026-01-31'' = (?records, sent)"
    by (cases "report_query ?env ?net ''2026-01-01'' ''2026-01-31''") simp
  have ne: "?records \<noteq> []" by simp
  have dicts: "\<forall>row\<in>set ?records. \<exists>d. row = VDict d" by simp
  have n: "normalize_rows ?records
             = Inr [VDict [(''Amount'', VInt 10), (''TransDate'', VStr ''2020-05-05'')]]"
    by code_simp
  have g: "group_rows ''year'' [VDict [(''Amount'', VInt 10), (''TransDate'', VStr ''2020-05-05'')]] []
             = Inr [(''2020'', Finite 10)]"
    by code_simp
  from sales_report_live_not_refiltered [OF dates live ne dicts, of "''year''"]
  obtain rows where r: "normalize_rows ?records = Inr rows"
    and f: "fst (sales_report ?env ?net ''2026-01-01'' ''2026-01-31'' ''year'') =
              (case group_rows ''year'' rows [] of
                 Inl e \<Rightarrow> Inl e
               | Inr summary \<Rightarrow> Inr \<lparr>sales_summary = Some summary, items = None, error = None\<rparr>)"
    by blast
  from r n have "rows = [VDict [(''Amount'', VInt 10), (''TransDate'', VStr ''2020-05-05'')]]"
    by simp
  then show ?thesis unfolding f by (simp only: g sum.case)
qed



end
